theory Spec2Isabelle
  imports Complex_Main "HOL-Library.Char_ord" "HOL-Library.List_Lexorder"
begin

section \<open>The tabular index of ori (src/ori/index.py)\<close>

text \<open>
  The Python class \<^verbatim>\<open>Index\<close> keeps one pandas data frame with one row per FITS file,
  indexed by the file path, together with a boolean row mask, the list of selected
  attributes and a stack of earlier masks. The data frame is modelled as a list of rows
  in table order; a cell is absent (\<open>None\<close>) where pandas holds NaN, NA or NaT.
  Header values are strings; derived columns also hold numbers and booleans. Floating
  point numbers are represented by the rationals they denote.
\<close>

datatype val = S string | N rat | B bool

record row =
  filekey :: string
  cells :: "string \<Rightarrow> val option"

datatype error =
    AssertionError
  | IndexError
  | KeyError string
  | MergeError
  | ValueError
  | FileExistsError

datatype outcome = Done | Raised error

record index =
  columns :: "string list"
  df :: "row list"
  rowmask :: "bool list"
  selected_attrs :: "string list"
  prev_rowmasks :: "bool list list"
  cache_valid :: bool
  missing_label :: string
  out :: "string list"

subsection \<open>Row mask (index.py, lines 91-107)\<close>

text \<open>
  \<^verbatim>\<open>any(new_mask)\<close> is \<open>list_ex id\<close>. The setter's \<^verbatim>\<open>assert\<close> is its first
  statement: when it fails, \<^verbatim>\<open>AssertionError\<close> is raised before anything is logged or
  assigned, and the object is the one the caller had. A mutating method is modelled as
  a function that returns how the call ended and the object after the call.
  \<^verbatim>\<open>logging.warn\<close> appends its message to \<open>out\<close>.
\<close>

definition set_rowmask :: "index \<Rightarrow> bool list \<Rightarrow> outcome \<times> index" where
  "set_rowmask ix new_mask =
     (if length new_mask \<noteq> length (df ix) then (Raised AssertionError, ix)
      else
        let ix1 = (if \<not> list_ex id new_mask
                   then ix\<lparr>out := out ix @ [''No rows selected'']\<rparr> else ix)
        in (Done, ix1\<lparr>rowmask := new_mask\<rparr>))"

definition reset_rowmask :: "index \<Rightarrow> index" where
  "reset_rowmask ix = ix\<lparr>rowmask := map (\<lambda>_. True) (df ix)\<rparr>"

definition stash_rowmask :: "index \<Rightarrow> index" where
  "stash_rowmask ix = ix\<lparr>prev_rowmasks := prev_rowmasks ix @ [rowmask ix]\<rparr>"

subsection \<open>Strings\<close>

text \<open>
  \<^verbatim>\<open>str.lower\<close> on the ASCII letters (other characters are kept), and
  \<^verbatim>\<open>str.replace(old, new)\<close>: the occurrences of \<open>old\<close> are replaced from the left,
  without overlap; an empty \<open>old\<close> matches before every character and at the end.
\<close>

definition lower_char :: "char \<Rightarrow> char" where
  "lower_char c =
     (let n = (of_char c :: nat) in if 65 \<le> n \<and> n \<le> 90 then char_of (n + 32) else c)"

definition lower :: "string \<Rightarrow> string" where
  "lower s = map lower_char s"

function replace_nonempty :: "string \<Rightarrow> string \<Rightarrow> string \<Rightarrow> string" where
  "replace_nonempty old new s =
     (if old = [] \<or> s = [] then s
      else if take (length old) s = old
        then new @ replace_nonempty old new (drop (length old) s)
      else hd s # replace_nonempty old new (tl s))"
  by pat_completeness auto
termination
  by (relation "measure (\<lambda>(old, new, s). length s)") auto

definition replace :: "string \<Rightarrow> string \<Rightarrow> string \<Rightarrow> string" where
  "replace old new s =
     (if old = [] then new @ concat (map (\<lambda>c. c # new) s)
      else replace_nonempty old new s)"

subsection \<open>Selections and attribute values (index.py, lines 136-152)\<close>

text \<open>
  \<^verbatim>\<open>Series.unique()\<close> and \<^verbatim>\<open>drop_duplicates()\<close> keep the first occurrence of every
  value, in order. \<^verbatim>\<open>self.df.loc[self.rowmask]\<close> keeps the rows whose mask entry is
  true and raises \<^verbatim>\<open>IndexError\<close> for a mask of another length; a column that the
  frame does not have raises \<^verbatim>\<open>KeyError\<close>.
\<close>

definition unique :: "'a list \<Rightarrow> 'a list" where
  "unique xs = rev (remdups (rev xs))"

definition loc_rowmask :: "index \<Rightarrow> row list" where
  "loc_rowmask ix = map fst (filter snd (zip (df ix) (rowmask ix)))"

definition fillna :: "val \<Rightarrow> val option \<Rightarrow> val" where
  "fillna d c = (case c of None \<Rightarrow> d | Some v \<Rightarrow> v)"

record attr_count =
  av :: val
  ncombos :: nat
  nfiles :: nat

text \<open>
  The frame \<^verbatim>\<open>_df\<close> of one reported value: the rows without a value when the value
  is the missing label, the rows holding the value otherwise.
\<close>

definition rows_of_value :: "string \<Rightarrow> row list \<Rightarrow> string \<Rightarrow> val \<Rightarrow> row list" where
  "rows_of_value missing selection attr v =
     (if v = S missing then filter (\<lambda>r. cells r attr = None) selection
      else filter (\<lambda>r. cells r attr = Some v) selection)"

definition values_for_attr :: "index \<Rightarrow> string \<Rightarrow> error + attr_count list" where
  "values_for_attr ix attr =
     (if length (rowmask ix) \<noteq> length (df ix) then Inl IndexError
      else if attr \<notin> set (columns ix) then Inl (KeyError attr)
      else
        let selection = loc_rowmask ix;
            vals = map (\<lambda>r. fillna (S (missing_label ix)) (cells r attr)) selection
        in Inr (map (\<lambda>v.
                  let sub = rows_of_value (missing_label ix) selection attr v
                  in \<lparr>av = v,
                      ncombos = length (unique (map (\<lambda>r. map (cells r) (columns ix)) sub)),
                      nfiles = length (unique (map filekey sub))\<rparr>)
                (unique vals)))"

subsection \<open>Calibration frames, exact (index.py, lines 237-253)\<close>

text \<open>
  \<^verbatim>\<open>config['calibration']\<close> maps a calibration type to its match attributes
  (\<^verbatim>\<open>attrs\<close>) and to the image types that need it (\<^verbatim>\<open>targets\<close>). The configuration
  file is not part of the sources, so the configuration is an argument.

  \<^verbatim>\<open>pd.merge(target_files, calib_files, how = 'outer', indicator = True)\<close> joins on
  the columns the two frames share, the match attributes: every target combination is
  paired with each calibration row of the same combination (\<^verbatim>\<open>both\<close>), or stands alone
  (\<^verbatim>\<open>left_only\<close>); calibration rows whose combination is no target's stand alone too
  (\<^verbatim>\<open>right_only\<close>). With no shared column the merge raises \<^verbatim>\<open>MergeError\<close>. The order
  in which pandas returns the joined rows is not modelled: the result is read as a
  collection of rows.
\<close>

record calibration =
  attrs :: "string list"
  targets :: "string list"

datatype indicator = both | left_only | right_only

datatype status = Available | Missing

record merged_row =
  key_vals :: "val option list"
  calib_file :: "string option"
  merge_ind :: indicator

record calib_row =
  c_vals :: "val option list"
  c_file :: "string option"
  c_status :: status

definition project :: "string list \<Rightarrow> row \<Rightarrow> val option list" where
  "project as r = map (cells r) as"

definition imagetyp_is :: "string \<Rightarrow> row \<Rightarrow> bool" where
  "imagetyp_is t r = (cells r ''_IMAGETYP'' = Some (S t))"

definition imagetyp_isin :: "string list \<Rightarrow> row \<Rightarrow> bool" where
  "imagetyp_isin ts r =
     (case cells r ''_IMAGETYP'' of Some (S t) \<Rightarrow> t \<in> set ts | _ \<Rightarrow> False)"

definition dropna :: "val option list list \<Rightarrow> val option list list" where
  "dropna ks = filter (\<lambda>k. None \<notin> set k) ks"

definition joined_rows ::
  "(val option list \<times> string) list \<Rightarrow> val option list \<Rightarrow> merged_row list" where
  "joined_rows calib_files t =
     (case filter (\<lambda>(k, f). k = t) calib_files of
        [] \<Rightarrow> [\<lparr>key_vals = t, calib_file = None, merge_ind = left_only\<rparr>]
      | ms \<Rightarrow> map (\<lambda>(k, f). \<lparr>key_vals = t, calib_file = Some f, merge_ind = both\<rparr>) ms)"

definition merge_outer ::
  "val option list list \<Rightarrow> (val option list \<times> string) list \<Rightarrow> merged_row list" where
  "merge_outer target_files calib_files =
     concat (map (joined_rows calib_files) target_files)
     @ map (\<lambda>(k, f). \<lparr>key_vals = k, calib_file = Some f, merge_ind = right_only\<rparr>)
         (filter (\<lambda>(k, f). k \<notin> set target_files) calib_files)"

definition status_of :: "merged_row \<Rightarrow> calib_row" where
  "status_of m =
     \<lparr>c_vals = key_vals m, c_file = calib_file m,
      c_status = (if merge_ind m = both then Available else Missing)\<rparr>"

definition classify ::
  "val option list list \<Rightarrow> (val option list \<times> string) list \<Rightarrow> calib_row list" where
  "classify target_files calib_files =
     map status_of
       (filter (\<lambda>m. merge_ind m = both \<or> merge_ind m = left_only)
          (merge_outer target_files calib_files))"

definition normalize_type :: "string \<Rightarrow> string" where
  "normalize_type s = lower (replace '' Frame'' [] s)"

definition calibration_frames ::
  "(string \<rightharpoonup> calibration) \<Rightarrow> index \<Rightarrow> string \<Rightarrow> error + calib_row list" where
  "calibration_frames config ix c_type0 =
     (let c_type = normalize_type c_type0 in
      case config c_type of
        None \<Rightarrow> Inl (KeyError c_type)
      | Some c_data \<Rightarrow>
          let c_attrs = attrs c_data; c_targets = targets c_data in
          if \<not> list_all (\<lambda>a. a \<in> set (columns ix)) (''_IMAGETYP'' # c_attrs)
            then Inl (KeyError (hd (filter (\<lambda>a. a \<notin> set (columns ix)) (''_IMAGETYP'' # c_attrs))))
          else if length (rowmask ix) \<noteq> length (df ix) then Inl IndexError
          else if c_attrs = [] then Inl MergeError
          else
            let calib_files =
                  map (\<lambda>r. (project c_attrs r, filekey r)) (filter (imagetyp_is c_type) (df ix));
                target_files =
                  dropna (unique (map (project c_attrs)
                    (filter (imagetyp_isin c_targets) (loc_rowmask ix))))
            in Inr (classify target_files calib_files))"

subsection \<open>Numbers and the derived CCD temperature (index.py, lines 32-47)\<close>

text \<open>
  Python's \<^verbatim>\<open>round(t)\<close> rounds to the nearest integer, a tie to the even one, and
  returns an \<^verbatim>\<open>int\<close>. \<^verbatim>\<open>Series.round(n)\<close> scales by a power of ten, rounds in the
  same way and scales back; \<open>n\<close> may be negative. The numbers are the rationals that the
  floating point values denote, so the representation error of a binary fraction is
  not part of the model.
\<close>

definition py_round :: "rat \<Rightarrow> int" where
  "py_round x =
     (let f = \<lfloor>x\<rfloor>; d = x - of_int f
      in if d < 1 / 2 then f else if 1 / 2 < d then f + 1
         else if even f then f else f + 1)"

definition round_digits :: "int \<Rightarrow> rat \<Rightarrow> rat" where
  "round_digits n x =
     (if 0 \<le> n then of_int (py_round (x * 10 ^ nat n)) / 10 ^ nat n
      else of_int (py_round (x / 10 ^ nat (- n))) * 10 ^ nat (- n))"
















subsection \<open>Example tables\<close>

text \<open>
  A row is written as its key and the list of its cells that hold a value. The
  calibration scenario has one light frame and two dark frames.
\<close>

definition mk_row :: "string \<Rightarrow> (string \<times> val) list \<Rightarrow> row" where
  "mk_row f kvs = \<lparr>filekey = f, cells = map_of kvs\<rparr>"

definition mk_index :: "string list \<Rightarrow> row list \<Rightarrow> bool list \<Rightarrow> index" where
  "mk_index cols rs m =
     \<lparr>columns = cols, df = rs, rowmask = m, selected_attrs = [], prev_rowmasks = [],
      cache_valid = True, missing_label = ''(Unknown)'', out = []\<rparr>"

definition light_0C :: row where
  "light_0C = mk_row ''/data/light1.fits''
     [(''_IMAGETYP'', S ''light''), (''_CCDTEMP'', S ''0C''), (''_BINNING'', S ''1x1'')]"

definition dark_0C :: row where
  "dark_0C = mk_row ''/data/dark1.fits''
     [(''_IMAGETYP'', S ''dark''), (''_CCDTEMP'', S ''0C''), (''_BINNING'', S ''1x1'')]"

definition dark_m10C :: row where
  "dark_m10C = mk_row ''/data/dark2.fits''
     [(''_IMAGETYP'', S ''dark''), (''_CCDTEMP'', S ''-10C''), (''_BINNING'', S ''2x2'')]"

definition scenario_index :: index where
  "scenario_index =
     mk_index [''_IMAGETYP'', ''_CCDTEMP'', ''_BINNING''] [light_0C, dark_0C, dark_m10C]
       [True, True, True]"

definition scenario_config :: "string \<rightharpoonup> calibration" where
  "scenario_config =
     [''dark'' \<mapsto> \<lparr>attrs = [''_CCDTEMP'', ''_BINNING''], targets = [''light'']\<rparr>]"

subsection \<open>Reading a calibration result\<close>

text \<open>
  The statuses a result reports for one combination of match attribute values, and the
  combinations found among the target rows (the masked rows whose image type is one of
  the targets) and among the candidate rows (all rows of the calibration type).
\<close>

definition statuses_of :: "calib_row list \<Rightarrow> val option list \<Rightarrow> status list" where
  "statuses_of res k = remdups (map c_status (filter (\<lambda>row. c_vals row = k) res))"

definition target_combos :: "index \<Rightarrow> string list \<Rightarrow> string list \<Rightarrow> val option list list" where
  "target_combos ix as ts = map (project as) (filter (imagetyp_isin ts) (loc_rowmask ix))"

definition candidate_combos :: "index \<Rightarrow> string list \<Rightarrow> string \<Rightarrow> val option list list" where
  "candidate_combos ix as t = map (project as) (filter (imagetyp_is t) (df ix))"

text \<open>
  A table with a light frame whose \<^verbatim>\<open>FILTER\<close> header is absent and one flat frame,
  and a configuration that matches flats to lights by filter.
\<close>

definition light_nofilter :: row where
  "light_nofilter = mk_row ''/data/light2.fits'' [(''_IMAGETYP'', S ''light'')]"

definition flat_L :: row where
  "flat_L = mk_row ''/data/flat1.fits'' [(''_IMAGETYP'', S ''flat''), (''FILTER'', S ''L'')]"

definition nofilter_index :: index where
  "nofilter_index = mk_index [''_IMAGETYP'', ''FILTER''] [light_nofilter, flat_L] [True, True]"

definition flat_config :: "string \<rightharpoonup> calibration" where
  "flat_config = [''flat'' \<mapsto> \<lparr>attrs = [''FILTER''], targets = [''light'']\<rparr>]"

text \<open>A table whose only row holds the missing label itself as its \<^verbatim>\<open>FILTER\<close> value.\<close>

definition sentinel_index :: index where
  "sentinel_index =
     mk_index [''_IMAGETYP'', ''FILTER'']
       [mk_row ''/data/light3.fits'' [(''_IMAGETYP'', S ''light''), (''FILTER'', S ''(Unknown)'')]]
       [True]"

subsection \<open>Paths and the workflow columns at construction (index.py, lines 58-67)\<close>

text \<open>
  Paths are strings with \<open>/\<close> between the components; \<^verbatim>\<open>Path(d, n)\<close> joins a
  directory and a name, \<^verbatim>\<open>Path(f).name\<close> is the last component and
  \<^verbatim>\<open>Path(f).parent\<close> what stands before it. The normalisation that \<^verbatim>\<open>pathlib\<close>
  applies (repeated or trailing separators, an absolute second argument) is not
  modelled.
\<close>

definition path_join :: "string \<Rightarrow> string \<Rightarrow> string" where
  "path_join d n = d @ ''/'' @ n"

definition path_name :: "string \<Rightarrow> string" where
  "path_name p = rev (takeWhile (\<lambda>c. c \<noteq> CHR ''/'') (rev p))"

definition path_parent :: "string \<Rightarrow> string" where
  "path_parent p =
     (if CHR ''/'' \<notin> set p then ''.''
      else if tl (dropWhile (\<lambda>c. c \<noteq> CHR ''/'') (rev p)) = [] then ''/''
      else rev (tl (dropWhile (\<lambda>c. c \<noteq> CHR ''/'') (rev p))))"

definition set_cell :: "string \<Rightarrow> val option \<Rightarrow> row \<Rightarrow> row" where
  "set_cell a v r = r\<lparr>cells := (cells r)(a := v)\<rparr>"

text \<open>
  \<^verbatim>\<open>df.loc[mask, target_cols] = df.loc[mask, value_cols]\<close>. The value is a data frame,
  and pandas aligns a data frame on both axes before it assigns through \<^verbatim>\<open>.loc\<close>: a
  target column receives the value's column of the same label, and a missing value
  where the value has no column of that label. The rows are the same on both sides.
\<close>

definition loc_assign_frame ::
  "(row \<Rightarrow> bool) \<Rightarrow> string list \<Rightarrow> string list \<Rightarrow> row list \<Rightarrow> row list" where
  "loc_assign_frame sel target_cols value_cols rows =
     map (\<lambda>r. if sel r
                then fold (\<lambda>c r1. set_cell c (if c \<in> set value_cols then cells r c else None) r1)
                       target_cols r
                else r) rows"

text \<open>
  Lines 58-67 of \<^verbatim>\<open>Index.__init__\<close>, on the frame that holds the header columns and
  the derived columns of lines 47-57 (among them \<^verbatim>\<open>_NIGHT\<close>); \<^verbatim>\<open>SESSION\<close> is a
  column of the frame, filled with missing values when no header has it (line 46).
\<close>

definition session_isna :: "row \<Rightarrow> bool" where
  "session_isna r = (cells r ''SESSION'' = None)"

definition init_workflow :: "row list \<Rightarrow> row list" where
  "init_workflow rows0 =
     (let rows1 =
            map (\<lambda>r. set_cell ''_newpath'' None
                  (set_cell ''_newname'' None
                    (set_cell ''_PATH'' (Some (S (path_parent (filekey r))))
                      (set_cell ''_NAME'' (Some (S (path_name (filekey r))))
                        (set_cell ''_CHANGED'' (Some (B False)) r))))) rows0;
          missing_session_info = map session_isna rows1
      in if list_ex id missing_session_info
         then map (\<lambda>(r, ms). set_cell ''_CHANGED'' (Some (B ms)) r)
                (zip (loc_assign_frame session_isna [''SESSION''] [''_NIGHT''] rows1)
                     missing_session_info)
         else rows1)"

text \<open>A frame of two files: the first has no \<^verbatim>\<open>SESSION\<close> header.\<close>

definition session_rows :: "row list" where
  "session_rows =
     [mk_row ''/data/a.fits'' [(''IMAGETYP'', S ''Light Frame''), (''_NIGHT'', S ''2022-03-01'')],
      mk_row ''/data/b.fits'' [(''IMAGETYP'', S ''Light Frame''), (''_NIGHT'', S ''2022-03-01''),
                               (''SESSION'', S ''2022-02-28'')]]"

subsection \<open>Sync (index.py, lines 282-351)\<close>

text \<open>
  \<^verbatim>\<open>sync\<close> walks over a snapshot of the changed rows and mutates the frame, the disk
  and the FITS headers. The disk is the set of paths that exist; the header collaborator
  (astropy) is represented by the list of header updates made through it, each with the
  file opened, the rename noted by \<^verbatim>\<open>_add_oldname\<close> and the fields passed to
  \<^verbatim>\<open>_update_header\<close>. What \<^verbatim>\<open>print\<close> writes is collected in \<open>printed\<close>. The
  operation is \<^verbatim>\<open>'copy'\<close>, \<^verbatim>\<open>'move'\<close>, \<^verbatim>\<open>'symlink'\<close> or any other value (the
  default of \<^verbatim>\<open>sync\<close> is \<^verbatim>\<open>True\<close>), for which no file is touched.

  \<^verbatim>\<open>shutil.copy\<close> and \<^verbatim>\<open>shutil.move\<close> need their source, \<^verbatim>\<open>os.symlink\<close> refuses
  an existing destination, and \<^verbatim>\<open>fits.open\<close> needs its file: each raises otherwise, and
  the exception leaves \<^verbatim>\<open>sync\<close> with the changes made so far.
\<close>

datatype operation = Copy | Move | Symlink | Other

datatype sync_error = FileNotFoundError | FileExists | TypeError

record header_update =
  hu_file :: string
  hu_renamed :: "(val option \<times> val option) option"
  hu_fields :: "(string \<times> val) list option"

record world =
  wix :: index
  present :: "string set"
  header_updates :: "header_update list"
  printed :: "string list"
  cache_resets :: nat

datatype sync_outcome = Synced | Failed sync_error

definition row_changed :: "row \<Rightarrow> bool" where
  "row_changed r = (cells r ''_CHANGED'' = Some (B True))"

text \<open>Lines 312-317: the effective new path and name, the destination, the rename test.\<close>

definition effective_path :: "row \<Rightarrow> val option" where
  "effective_path r =
     (if cells r ''_newpath'' = None then cells r ''_PATH'' else cells r ''_newpath'')"

definition effective_name :: "row \<Rightarrow> val option" where
  "effective_name r =
     (if cells r ''_newname'' = None then cells r ''_NAME'' else cells r ''_newname'')"

definition destination :: "row \<Rightarrow> string option" where
  "destination r =
     (case (effective_path r, effective_name r) of
        (Some (S d), Some (S n)) \<Rightarrow> Some (path_join d n)
      | _ \<Rightarrow> None)"

definition do_rename :: "row \<Rightarrow> bool" where
  "do_rename r =
     (\<not> (effective_path r = cells r ''_PATH'' \<and> effective_name r = cells r ''_NAME''))"

text \<open>\<^verbatim>\<open>self.df.loc[self.df.index == key, cols] = v\<close>; a column that is new is added.\<close>

definition loc_set :: "string \<Rightarrow> string list \<Rightarrow> val option \<Rightarrow> index \<Rightarrow> index" where
  "loc_set key cols v idx =
     idx\<lparr>columns := columns idx @ filter (\<lambda>c. c \<notin> set (columns idx)) (remdups cols),
         df := map (\<lambda>r. if filekey r = key then fold (\<lambda>c. set_cell c v) cols r else r) (df idx)\<rparr>"

definition rename_index :: "string \<Rightarrow> string \<Rightarrow> index \<Rightarrow> index" where
  "rename_index key newkey idx =
     idx\<lparr>df := map (\<lambda>r. if filekey r = key then r\<lparr>filekey := newkey\<rparr> else r) (df idx)\<rparr>"

definition move_copy_or_symlink ::
  "operation \<Rightarrow> string \<Rightarrow> string \<Rightarrow> string set \<Rightarrow> sync_error + string set" where
  "move_copy_or_symlink op src newfile disk =
     (case op of
        Copy \<Rightarrow> if src \<in> disk then Inr (insert newfile disk) else Inl FileNotFoundError
      | Move \<Rightarrow> if src \<in> disk then Inr (insert newfile (disk - {src})) else Inl FileNotFoundError
      | Symlink \<Rightarrow> if newfile \<in> disk then Inl FileExists else Inr (insert newfile disk)
      | Other \<Rightarrow> Inr disk)"

text \<open>
  Lines 325-346, after the file operation: the header update (unless the operation is a
  symlink), the dirty flag, the new key after a move, the cache.
\<close>

definition new_values :: "string list \<Rightarrow> row \<Rightarrow> (string \<times> val) list" where
  "new_values to_update r =
     concat (map (\<lambda>k. case cells r k of None \<Rightarrow> [] | Some v \<Rightarrow> [(k, v)]) to_update)"

definition needs_header :: "bool \<Rightarrow> row \<Rightarrow> bool" where
  "needs_header save_oldname r =
     ((effective_name r \<noteq> cells r ''_NAME'' \<and> save_oldname) \<or> row_changed r)"

definition write_header :: "string list \<Rightarrow> string \<Rightarrow> row \<Rightarrow> world \<Rightarrow> world" where
  "write_header mutable newfile r w =
     w\<lparr>header_updates := header_updates w @
         [\<lparr>hu_file = newfile,
           hu_renamed = (if effective_name r = cells r ''_NAME'' then None
                         else Some (cells r ''_NAME'', effective_name r)),
           hu_fields = (if row_changed r then Some (new_values mutable r) else None)\<rparr>]\<rparr>"

definition finish_row :: "operation \<Rightarrow> string \<Rightarrow> row \<Rightarrow> world \<Rightarrow> world" where
  "finish_row op newfile r w =
     (let i1 = loc_set (filekey r) [''_CHANGED''] (Some (B False)) (wix w);
          i2 = (if op = Move
                then rename_index (filekey r) newfile
                       (loc_set (filekey r) [''_path''] (effective_path r) i1)
                else i1);
          i3 = (if row_changed r \<and> \<not> do_rename r then i2\<lparr>cache_valid := False\<rparr> else i2)
      in w\<lparr>wix := i3\<rparr>)"

definition after_file_step ::
  "operation \<Rightarrow> bool \<Rightarrow> string list \<Rightarrow> string \<Rightarrow> row \<Rightarrow> world \<Rightarrow> sync_outcome \<times> world" where
  "after_file_step op save_oldname mutable newfile r w =
     (if op = Symlink then (Synced, w)
      else if needs_header save_oldname r
        then (if newfile \<in> present w
              then (Synced, finish_row op newfile r (write_header mutable newfile r w))
              else (Failed FileNotFoundError, w))
      else (Synced, finish_row op newfile r w))"

definition exists_message :: "string \<Rightarrow> string" where
  "exists_message newfile = ''Error: desired filename already exists ('' @ newfile @ '')''"

definition sync_row ::
  "operation \<Rightarrow> bool \<Rightarrow> bool \<Rightarrow> string list \<Rightarrow> world \<Rightarrow> row \<Rightarrow> sync_outcome \<times> world" where
  "sync_row op overwrite_existing save_oldname mutable w r =
     (case destination r of
        None \<Rightarrow> (Failed TypeError, w)
      | Some newfile \<Rightarrow>
          if do_rename r then
            (if newfile \<in> present w \<and> \<not> overwrite_existing
             then (Synced, w\<lparr>printed := printed w @ [exists_message newfile]\<rparr>)
             else
               (case move_copy_or_symlink op (filekey r) newfile (present w) of
                  Inl e \<Rightarrow> (Failed e, w)
                | Inr disk \<Rightarrow>
                    after_file_step op save_oldname mutable newfile r
                      (w\<lparr>present := disk,
                         wix := loc_set (filekey r) [''_newpath'', ''_newname''] None (wix w)\<rparr>)))
          else after_file_step op save_oldname mutable newfile r w)"

fun sync_rows ::
  "operation \<Rightarrow> bool \<Rightarrow> bool \<Rightarrow> string list \<Rightarrow> world \<Rightarrow> row list \<Rightarrow> sync_outcome \<times> world" where
  "sync_rows op ov so mutable w [] = (Synced, w)"
| "sync_rows op ov so mutable w (r # rs) =
     (case sync_row op ov so mutable w r of
        (Synced, w1) \<Rightarrow> sync_rows op ov so mutable w1 rs
      | (Failed e, w1) \<Rightarrow> (Failed e, w1))"

text \<open>
  \<^verbatim>\<open>self.changed().reset_index().progress_apply(_sync_row, axis=1)\<close>, then the cache is
  reset when a row made it invalid.
\<close>

definition sync :: "operation \<Rightarrow> bool \<Rightarrow> bool \<Rightarrow> string list \<Rightarrow> world \<Rightarrow> sync_outcome \<times> world" where
  "sync op ov so mutable w =
     (case sync_rows op ov so mutable w (filter row_changed (df (wix w))) of
        (Synced, w1) \<Rightarrow>
          (Synced, if cache_valid (wix w1) then w1 else w1\<lparr>cache_resets := cache_resets w1 + 1\<rparr>)
      | (Failed e, w1) \<Rightarrow> (Failed e, w1))"

text \<open>
  A world for \<^verbatim>\<open>sync\<close>: the first row has a planned path and name whose destination
  is already on disk, the second has an edited attribute only, the third a planned name
  in its own directory.
\<close>

definition staged_row :: row where
  "staged_row = mk_row ''/data/light1.fits''
     [(''_PATH'', S ''/data''), (''_NAME'', S ''light1.fits''), (''_CHANGED'', B True),
      (''_newpath'', S ''/new/light''), (''_newname'', S ''M31_001.fits'')]"

definition edited_row :: row where
  "edited_row = mk_row ''/data/dark1.fits''
     [(''_PATH'', S ''/data''), (''_NAME'', S ''dark1.fits''), (''_CHANGED'', B True),
      (''SESSION'', S ''2022-03-01'')]"

definition renamed_row :: row where
  "renamed_row = mk_row ''/data/flat1.fits''
     [(''_PATH'', S ''/data''), (''_NAME'', S ''flat1.fits''), (''_CHANGED'', B True),
      (''_newname'', S ''flat_001.fits'')]"

definition sync_world :: world where
  "sync_world =
     \<lparr>wix = mk_index [''_PATH'', ''_NAME'', ''_CHANGED'', ''_newpath'', ''_newname'', ''SESSION'']
              [staged_row, edited_row, renamed_row] [True, True, True],
      present = {''/data/light1.fits'', ''/data/dark1.fits'', ''/data/flat1.fits'',
                 ''/new/light/M31_001.fits''},
      header_updates = [], printed = [], cache_resets = 0\<rparr>"

subsection \<open>Organize (index.py, lines 370-439)\<close>




































section \<open>Theorems\<close>

text \<open>
  C5. Setting a mask whose length differs from the number of rows raises (Python's
  \<^verbatim>\<open>AssertionError\<close>, the validation failure of the specification) and leaves the
  index, hence its mask, as it was. A mask of the right length that selects no row is
  installed; the call ends normally and the only other effect is one warning.
\<close>

theorem set_rowmask_length_check:
  "(length m \<noteq> length (df ix) \<longrightarrow>
      set_rowmask ix m = (Raised AssertionError, ix) \<and>
      rowmask (snd (set_rowmask ix m)) = rowmask ix) \<and>
   (length m = length (df ix) \<and> \<not> list_ex id m \<longrightarrow>
      set_rowmask ix m = (Done, ix\<lparr>out := out ix @ [''No rows selected''], rowmask := m\<rparr>) \<and>
      rowmask (snd (set_rowmask ix m)) = m)"
  by (simp add: set_rowmask_def)

theorem set_rowmask_length_check_witness:
  "set_rowmask scenario_index [True] = (Raised AssertionError, scenario_index) \<and>
   rowmask (snd (set_rowmask scenario_index [True])) = [True, True, True] \<and>
   set_rowmask scenario_index [False, False, False] =
     (Done, scenario_index\<lparr>out := [''No rows selected''],
                           rowmask := [False, False, False]\<rparr>) \<and>
   rowmask (snd (set_rowmask scenario_index [False, False, False])) = [False, False, False]"
  using set_rowmask_length_check [of "[True]" scenario_index]
    set_rowmask_length_check [of "[False, False, False]" scenario_index]
  by (simp add: scenario_index_def mk_index_def)




subsection \<open>Joining targets and calibration rows\<close>

lemma set_unique [simp]: "set (unique xs) = set xs"
  by (simp add: unique_def)

lemma distinct_unique [simp]: "distinct (unique xs)"
  by (simp add: unique_def)

lemma keep_joined_rows:
  "filter (\<lambda>m. merge_ind m = both \<or> merge_ind m = left_only) (joined_rows cs t) = joined_rows cs t"
  unfolding joined_rows_def
  by (cases "filter (\<lambda>(k, f). k = t) cs") (simp_all add: case_prod_beta)

lemma drop_right_only:
  "filter (\<lambda>m. merge_ind m = both \<or> merge_ind m = left_only)
     (map (\<lambda>(k, f). \<lparr>key_vals = k, calib_file = Some f, merge_ind = right_only\<rparr>) xs) = []"
  by (induction xs) (simp_all add: case_prod_beta)

lemma classify_concat: "classify ts cs = map status_of (concat (map (joined_rows cs) ts))"
  unfolding classify_def merge_outer_def
  by (simp add: filter_concat comp_def keep_joined_rows drop_right_only)

lemma set_joined_rows:
  "status_of ` set (joined_rows cs t) =
     (if t \<in> fst ` set cs
      then {\<lparr>c_vals = t, c_file = Some f, c_status = Available\<rparr> | f. (t, f) \<in> set cs}
      else {\<lparr>c_vals = t, c_file = None, c_status = Missing\<rparr>})"
proof (cases "filter (\<lambda>(k, f). k = t) cs")
  case Nil
  then have "t \<notin> fst ` set cs"
    by (auto simp: filter_empty_conv)
  with Nil show ?thesis by (simp add: status_of_def joined_rows_def)
next
  case (Cons a as)
  then have "a \<in> set (filter (\<lambda>(k, f). k = t) cs)" by simp
  then have in_cs: "t \<in> fst ` set cs" by force
  have "status_of ` set (joined_rows cs t) =
      (\<lambda>(k, f). \<lparr>c_vals = t, c_file = Some f, c_status = Available\<rparr>) ` set (filter (\<lambda>(k, f). k = t) cs)"
    unfolding joined_rows_def Cons [symmetric] using Cons
    by (simp add: status_of_def image_image case_prod_beta)
  also have "\<dots> = {\<lparr>c_vals = t, c_file = Some f, c_status = Available\<rparr> | f. (t, f) \<in> set cs}"
    by (auto simp: image_iff)
  finally show ?thesis using in_cs by simp
qed

lemma classify_set:
  "set (classify ts cs) =
     {\<lparr>c_vals = t, c_file = None, c_status = Missing\<rparr> | t. t \<in> set ts \<and> t \<notin> fst ` set cs} \<union>
     {\<lparr>c_vals = t, c_file = Some f, c_status = Available\<rparr> | t f. t \<in> set ts \<and> (t, f) \<in> set cs}"
proof -
  have "set (classify ts cs) = (\<Union>t\<in>set ts. status_of ` set (joined_rows cs t))"
    unfolding classify_concat by auto
  also have "\<dots> = {\<lparr>c_vals = t, c_file = None, c_status = Missing\<rparr> | t. t \<in> set ts \<and> t \<notin> fst ` set cs} \<union>
     {\<lparr>c_vals = t, c_file = Some f, c_status = Available\<rparr> | t f. t \<in> set ts \<and> (t, f) \<in> set cs}"
    unfolding set_joined_rows by (auto split: if_splits) force
  finally show ?thesis .
qed

lemma statuses_of_classify:
  "set (statuses_of (classify ts cs) k) =
     (if k \<notin> set ts then {} else if k \<in> fst ` set cs then {Available} else {Missing})"
  unfolding statuses_of_def by (auto simp: classify_set image_iff) force+

text \<open>
  C1 (amended). When the calibration type is configured, its match attributes are columns
  and the mask has the table's length, exact resolution returns, and for every combination
  \<open>k\<close> of match attribute values: the result reports no row for \<open>k\<close> when \<open>k\<close> has an
  absent value or does not occur among the masked target rows; otherwise it reports only
  \<open>Available\<close> rows when \<open>k\<close> occurs among the rows of the calibration type (masked or
  not), each pointing to such a row's file, and exactly a \<open>Missing\<close> row without a file
  when it does not. In the scenario of one light frame at (0C, 1x1) and dark frames at
  (0C, 1x1) and (-10C, 2x2) the result is the single \<open>Available\<close> row for (0C, 1x1).
\<close>

theorem calibration_frames_classification:
  assumes cfg: "config (normalize_type c_type) = Some cd"
    and cols: "list_all (\<lambda>a. a \<in> set (columns ix)) (''_IMAGETYP'' # attrs cd)"
    and len: "length (rowmask ix) = length (df ix)"
    and ne: "attrs cd \<noteq> []"
  shows "(\<exists>res. calibration_frames config ix c_type = Inr res \<and>
     set (statuses_of res k) =
       (if None \<in> set k \<or> k \<notin> set (target_combos ix (attrs cd) (targets cd)) then {}
        else if k \<in> set (candidate_combos ix (attrs cd) (normalize_type c_type))
          then {Available} else {Missing}) \<and>
     (\<forall>row \<in> set res. c_status row = Available \<longrightarrow>
        (\<exists>r \<in> set (df ix). imagetyp_is (normalize_type c_type) r \<and>
           project (attrs cd) r = c_vals row \<and> c_file row = Some (filekey r))) \<and>
     (\<forall>row \<in> set res. c_status row = Missing \<longrightarrow> c_file row = None)) \<and>
   calibration_frames scenario_config scenario_index ''dark'' =
     Inr [\<lparr>c_vals = [Some (S ''0C''), Some (S ''1x1'')], c_file = Some ''/data/dark1.fits'',
           c_status = Available\<rparr>]"
proof -
  let ?T = "normalize_type c_type"
  let ?cs = "map (\<lambda>r. (project (attrs cd) r, filekey r)) (filter (imagetyp_is ?T) (df ix))"
  let ?ts = "dropna (unique (map (project (attrs cd))
               (filter (imagetyp_isin (targets cd)) (loc_rowmask ix))))"
  have res: "calibration_frames config ix c_type = Inr (classify ?ts ?cs)"
    using cfg cols len ne by (simp add: calibration_frames_def Let_def)
  have ts: "k \<in> set ?ts \<longleftrightarrow>
      None \<notin> set k \<and> k \<in> set (target_combos ix (attrs cd) (targets cd))"
    by (auto simp: dropna_def target_combos_def)
  have cs: "k \<in> fst ` set ?cs \<longleftrightarrow> k \<in> set (candidate_combos ix (attrs cd) ?T)"
    by (auto simp: candidate_combos_def image_iff)
  have 1: "set (statuses_of (classify ?ts ?cs) k) =
       (if None \<in> set k \<or> k \<notin> set (target_combos ix (attrs cd) (targets cd)) then {}
        else if k \<in> set (candidate_combos ix (attrs cd) ?T) then {Available} else {Missing})"
    unfolding statuses_of_classify ts cs by simp
  have 2: "\<forall>row \<in> set (classify ?ts ?cs). c_status row = Available \<longrightarrow>
        (\<exists>r \<in> set (df ix). imagetyp_is ?T r \<and>
           project (attrs cd) r = c_vals row \<and> c_file row = Some (filekey r))"
    unfolding classify_set by auto
  have 3: "\<forall>row \<in> set (classify ?ts ?cs). c_status row = Missing \<longrightarrow> c_file row = None"
    unfolding classify_set by auto
  have 4: "calibration_frames scenario_config scenario_index ''dark'' =
     Inr [\<lparr>c_vals = [Some (S ''0C''), Some (S ''1x1'')], c_file = Some ''/data/dark1.fits'',
           c_status = Available\<rparr>]"
    by code_simp
  show ?thesis using res 1 2 3 4 by simp
qed

theorem calibration_frames_classification_witness:
  "\<exists>res. calibration_frames scenario_config scenario_index ''dark'' = Inr res \<and>
     set (statuses_of res [Some (S ''0C''), Some (S ''1x1'')]) = {Available} \<and>
     set (statuses_of res [Some (S ''-10C''), Some (S ''2x2'')]) = {} \<and>
     set (statuses_of res [Some (S ''0C''), None]) = {}"
proof -
  let ?cd = "\<lparr>attrs = [''_CCDTEMP'', ''_BINNING''], targets = [''light'']\<rparr>"
  have n: "normalize_type ''dark'' = ''dark''" by code_simp
  have cfg: "scenario_config (normalize_type ''dark'') = Some ?cd"
    unfolding n by (simp add: scenario_config_def)
  have cols: "list_all (\<lambda>a. a \<in> set (columns scenario_index)) (''_IMAGETYP'' # attrs ?cd)"
    by (simp add: scenario_index_def mk_index_def)
  have len: "length (rowmask scenario_index) = length (df scenario_index)"
    by (simp add: scenario_index_def mk_index_def)
  have ne: "attrs ?cd \<noteq> []" by simp
  have t: "target_combos scenario_index (attrs ?cd) (targets ?cd) =
      [[Some (S ''0C''), Some (S ''1x1'')]]"
    by code_simp
  have c: "candidate_combos scenario_index (attrs ?cd) ''dark'' =
      [[Some (S ''0C''), Some (S ''1x1'')], [Some (S ''-10C''), Some (S ''2x2'')]]"
    by code_simp
  note th = calibration_frames_classification
    [where config = scenario_config and c_type = "''dark''" and cd = ?cd
       and ix = scenario_index, OF cfg cols len ne]
  show ?thesis
    using th [of "[Some (S ''0C''), Some (S ''1x1'')]"]
      th [of "[Some (S ''-10C''), Some (S ''2x2'')]"] th [of "[Some (S ''0C''), None]"]
    unfolding n t c by auto
qed

theorem calibration_frames_absent_counterexample:
  "[None] \<in> set (target_combos nofilter_index [''FILTER''] [''light'']) \<and>
   [None] \<notin> set (candidate_combos nofilter_index [''FILTER''] ''flat'') \<and>
   calibration_frames flat_config nofilter_index ''flat'' = Inr [] \<and>
   statuses_of [] [None] \<noteq> [Missing]"
proof -
  have 1: "target_combos nofilter_index [''FILTER''] [''light''] = [[None]]" by code_simp
  have 2: "candidate_combos nofilter_index [''FILTER''] ''flat'' = [[Some (S ''L'')]]" by code_simp
  have 3: "calibration_frames flat_config nofilter_index ''flat'' = Inr []" by code_simp
  show ?thesis unfolding 1 2 3 by (simp add: statuses_of_def)
qed

subsection \<open>Masked rows and groups of equal values\<close>

lemma length_masked:
  "length xs = length m \<Longrightarrow> length (map fst (filter snd (zip xs m))) = length (filter id m)"
  by (induction xs m rule: list_induct2) simp_all

lemma set_masked_subset: "set (map fst (filter snd (zip xs m))) \<subseteq> set xs"
  by (auto dest: set_zip_leftD)

lemma distinct_masked:
  "distinct (map f xs) \<Longrightarrow> distinct (map f (map fst (filter snd (zip xs m))))"
proof (induction xs arbitrary: m)
  case Nil
  then show ?case by simp
next
  case (Cons x xs)
  show ?case
  proof (cases m)
    case Nil
    then show ?thesis by simp
  next
    case (Cons b bs)
    have "f x \<notin> f ` set (map fst (filter snd (zip xs bs)))"
      using Cons.prems set_masked_subset [of xs bs] by auto
    then show ?thesis
      using Cons Cons.IH [of bs] Cons.prems by auto
  qed
qed

lemma sum_list_indicator:
  "distinct vs \<Longrightarrow>
   sum_list (map (\<lambda>v. if a = v then 1 else 0) vs) = (if a \<in> set vs then 1 else (0::nat))"
  by (induction vs) auto

lemma sum_list_group_sizes:
  "distinct vs \<Longrightarrow> f ` set xs \<subseteq> set vs \<Longrightarrow>
   sum_list (map (\<lambda>v. length (filter (\<lambda>r. f r = v) xs)) vs) = length xs"
proof (induction xs)
  case Nil
  then show ?case by simp
next
  case (Cons x xs)
  have "sum_list (map (\<lambda>v. length (filter (\<lambda>r. f r = v) (x # xs))) vs) =
        sum_list (map (\<lambda>v. (if f x = v then 1 else 0) + length (filter (\<lambda>r. f r = v) xs)) vs)"
    by (rule arg_cong [where f = sum_list]) (rule map_cong, auto)
  also have "\<dots> = sum_list (map (\<lambda>v. if f x = v then 1 else 0) vs)
                 + sum_list (map (\<lambda>v. length (filter (\<lambda>r. f r = v) xs)) vs)"
    by (simp add: sum_list_addf)
  also have "\<dots> = 1 + length xs"
    using Cons by (simp add: sum_list_indicator)
  finally show ?case by simp
qed

lemma rows_of_value_filter:
  assumes "list_all (\<lambda>r. cells r attr \<noteq> Some (S ml)) sel"
  shows "rows_of_value ml sel attr v = filter (\<lambda>r. fillna (S ml) (cells r attr) = v) sel"
proof -
  have "\<And>r. r \<in> set sel \<Longrightarrow>
      (if v = S ml then cells r attr = None else cells r attr = Some v) \<longleftrightarrow>
      fillna (S ml) (cells r attr) = v"
    using assms by (auto simp: fillna_def list_all_iff split: option.splits)
  then show ?thesis
    unfolding rows_of_value_def by (auto intro: filter_cong)
qed

text \<open>
  Away from a collision with the missing label the reported values partition the masked
  rows. After a mask has been set on a table with unique row keys, and when no masked row
  holds the missing label itself as its value of the attribute, \<^verbatim>\<open>values_for_attr\<close>
  returns; the file counts of the reported values add up to the number of masked rows;
  the reported values are distinct; and every masked row belongs to the rows of exactly
  one reported value (a row without a value to those of the missing label).
\<close>

lemma values_for_attr_partition:
  assumes set: "set_rowmask ix0 m = (Done, ix)"
    and col: "attr \<in> set (columns ix)"
    and keys: "distinct (map filekey (df ix))"
    and nolabel: "list_all (\<lambda>r. cells r attr \<noteq> Some (S (missing_label ix))) (loc_rowmask ix)"
  shows "\<exists>vs. values_for_attr ix attr = Inr vs \<and>
      length (loc_rowmask ix) = length (filter id m) \<and>
      sum_list (map nfiles vs) = length (filter id m) \<and>
      distinct (map av vs) \<and>
      (\<forall>r \<in> set (loc_rowmask ix).
         \<exists>!v. v \<in> set (map av vs) \<and>
               r \<in> set (rows_of_value (missing_label ix) (loc_rowmask ix) attr v))"
proof -
  let ?ml = "missing_label ix"
  let ?sel = "loc_rowmask ix"
  let ?f = "\<lambda>r. fillna (S ?ml) (cells r attr)"
  let ?vals = "unique (map ?f ?sel)"
  define vs where "vs = map (\<lambda>v. \<lparr>av = v,
                ncombos = length (unique (map (\<lambda>r. map (cells r) (columns ix))
                            (rows_of_value ?ml ?sel attr v))),
                nfiles = length (unique (map filekey (rows_of_value ?ml ?sel attr v)))\<rparr>) ?vals"
  from set have m: "rowmask ix = m" and len: "length m = length (df ix)"
    by (auto simp: set_rowmask_def Let_def split: if_splits)
  have res: "values_for_attr ix attr = Inr vs"
    using col len m by (simp add: values_for_attr_def Let_def vs_def)
  have n: "length ?sel = length (filter id m)"
    unfolding loc_rowmask_def m using len length_masked [of "df ix" m] by simp
  have dsel: "distinct (map filekey ?sel)"
    unfolding loc_rowmask_def by (rule distinct_masked) (rule keys)
  have rows: "rows_of_value ?ml ?sel attr v = filter (\<lambda>r. ?f r = v) ?sel" for v
    by (rule rows_of_value_filter) (rule nolabel)
  have nf: "length (unique (map filekey (rows_of_value ?ml ?sel attr v))) =
      length (filter (\<lambda>r. ?f r = v) ?sel)" for v
  proof -
    have "distinct (map filekey (filter (\<lambda>r. ?f r = v) ?sel))"
      using dsel by (simp add: distinct_map_filter)
    then show ?thesis
      unfolding rows unique_def by (simp add: distinct_remdups_id)
  qed
  have "sum_list (map nfiles vs) =
      sum_list (map (\<lambda>v. length (filter (\<lambda>r. ?f r = v) ?sel)) ?vals)"
    by (simp add: vs_def comp_def nf)
  also have "\<dots> = length ?sel"
    by (rule sum_list_group_sizes) simp_all
  finally have total: "sum_list (map nfiles vs) = length (filter id m)"
    using n by simp
  have avs: "map av vs = ?vals"
    by (simp add: vs_def comp_def)
  have dist: "distinct (map av vs)"
    unfolding avs by simp
  have part: "\<forall>r \<in> set ?sel.
      \<exists>!v. v \<in> set (map av vs) \<and> r \<in> set (rows_of_value ?ml ?sel attr v)"
    unfolding avs rows by auto
  show ?thesis
    by (intro exI [of _ vs] conjI) (fact res, fact n, fact total, fact dist, fact part)
qed

lemma values_for_attr_partition_example:
  "\<exists>vs. values_for_attr nofilter_index ''FILTER'' = Inr vs \<and>
      length (loc_rowmask nofilter_index) = 2 \<and>
      sum_list (map nfiles vs) = 2 \<and>
      map av vs = [S ''(Unknown)'', S ''L'']"
proof -
  have set: "set_rowmask nofilter_index [True, True] = (Done, nofilter_index)"
    by (simp add: set_rowmask_def nofilter_index_def mk_index_def)
  have col: "''FILTER'' \<in> set (columns nofilter_index)"
    by (simp add: nofilter_index_def mk_index_def)
  have keys: "distinct (map filekey (df nofilter_index))"
    by code_simp
  have nolabel: "list_all (\<lambda>r. cells r ''FILTER'' \<noteq> Some (S (missing_label nofilter_index)))
      (loc_rowmask nofilter_index)"
    by code_simp
  have ev: "values_for_attr nofilter_index ''FILTER'' =
      Inr [\<lparr>av = S ''(Unknown)'', ncombos = 1, nfiles = 1\<rparr>, \<lparr>av = S ''L'', ncombos = 1, nfiles = 1\<rparr>]"
    by code_simp
  show ?thesis
    using values_for_attr_partition [OF set col keys nolabel] ev by auto
qed

text \<open>
  C2. The sum of the reported file counts equals the number of masked rows, and no masked
  row is counted under two values: the code breaks this for a row whose value is the
  missing label itself. Such a row is reported under the label (\<^verbatim>\<open>fillna\<close> leaves the
  value as it is), but the rows of the label are taken with \<^verbatim>\<open>isna()\<close> alone, so the
  row is counted under no value. On the table whose only row has the \<^verbatim>\<open>FILTER\<close> value
  \<^verbatim>\<open>(Unknown)\<close>, with that row masked, the single reported value has no file: the
  counts add up to 0 for 1 masked row.
\<close>

theorem values_for_attr_sentinel_miscount:
  "set_rowmask sentinel_index [True] = (Done, sentinel_index) \<and>
   length (loc_rowmask sentinel_index) = 1 \<and>
   values_for_attr sentinel_index ''FILTER'' =
     Inr [\<lparr>av = S ''(Unknown)'', ncombos = 0, nfiles = 0\<rparr>] \<and>
   sum_list (map nfiles [\<lparr>av = S ''(Unknown)'', ncombos = 0, nfiles = 0\<rparr>]) \<noteq>
     length (loc_rowmask sentinel_index)"
proof -
  have 1: "set_rowmask sentinel_index [True] = (Done, sentinel_index)"
    by (simp add: set_rowmask_def sentinel_index_def mk_index_def)
  have 2: "length (loc_rowmask sentinel_index) = 1" by code_simp
  have 3: "values_for_attr sentinel_index ''FILTER'' =
     Inr [\<lparr>av = S ''(Unknown)'', ncombos = 0, nfiles = 0\<rparr>]"
    by code_simp
  show ?thesis using 1 2 3 by simp
qed

text \<open>
  C9. Construction marks exactly the rows without a session identifier as changed. It does
  not fill the identifier in: the assignment of line 66 takes its value from a frame whose
  only column is \<^verbatim>\<open>_NIGHT\<close>, so the column \<^verbatim>\<open>SESSION\<close> receives missing values again,
  and every row keeps the \<^verbatim>\<open>SESSION\<close> it had. For the two files of \<open>session_rows\<close> the
  first is flagged and still has no session although its night is known.
\<close>

theorem init_workflow_session_not_filled:
  "(i < length rows0 \<longrightarrow>
      cells (init_workflow rows0 ! i) ''SESSION'' = cells (rows0 ! i) ''SESSION'' \<and>
      cells (init_workflow rows0 ! i) ''_CHANGED'' = Some (B (session_isna (rows0 ! i))) \<and>
      filekey (init_workflow rows0 ! i) = filekey (rows0 ! i)) \<and>
   length (init_workflow rows0) = length rows0 \<and>
   map (\<lambda>r. map (cells r) [''SESSION'', ''_NIGHT'', ''_CHANGED'']) (init_workflow session_rows) =
     [[None, Some (S ''2022-03-01''), Some (B True)],
      [Some (S ''2022-02-28''), Some (S ''2022-03-01''), Some (B False)]]"
proof -
  have 1: "i < length rows0 \<longrightarrow>
      cells (init_workflow rows0 ! i) ''SESSION'' = cells (rows0 ! i) ''SESSION'' \<and>
      cells (init_workflow rows0 ! i) ''_CHANGED'' = Some (B (session_isna (rows0 ! i))) \<and>
      filekey (init_workflow rows0 ! i) = filekey (rows0 ! i)"
    by (auto simp: init_workflow_def Let_def loc_assign_frame_def set_cell_def
        session_isna_def list_ex_iff)
  have 2: "length (init_workflow rows0) = length rows0"
    by (simp add: init_workflow_def Let_def loc_assign_frame_def)
  have 3: "map (\<lambda>r. map (cells r) [''SESSION'', ''_NIGHT'', ''_CHANGED''])
      (init_workflow session_rows) =
     [[None, Some (S ''2022-03-01''), Some (B True)],
      [Some (S ''2022-02-28''), Some (S ''2022-03-01''), Some (B False)]]"
    by code_simp
  show ?thesis using 1 2 3 by blast
qed

theorem init_workflow_session_not_filled_witness:
  "cells (init_workflow session_rows ! 0) ''SESSION'' = None \<and>
   cells (session_rows ! 0) ''_NIGHT'' = Some (S ''2022-03-01'') \<and>
   cells (init_workflow session_rows ! 0) ''_CHANGED'' = Some (B True) \<and>
   cells (init_workflow session_rows ! 1) ''_CHANGED'' = Some (B False)"
proof -
  have l: "0 < length session_rows" "1 < length session_rows"
    by (simp_all add: session_rows_def)
  have c: "cells (session_rows ! 0) ''SESSION'' = None"
    "cells (session_rows ! 0) ''_NIGHT'' = Some (S ''2022-03-01'')"
    "cells (session_rows ! 1) ''SESSION'' = Some (S ''2022-02-28'')"
    by (simp_all add: session_rows_def mk_row_def)
  show ?thesis
    using init_workflow_session_not_filled [of 0 session_rows]
      init_workflow_session_not_filled [of 1 session_rows] l c
    by (simp add: session_isna_def)
qed

subsection \<open>Sync\<close>

text \<open>
  C6. A changed row that is to be renamed, whose destination exists while overwriting was
  not authorized, is given up with the message that the file name already exists: the
  call returns without raising, and the frame (so the row's dirty flag and its planned
  path and name), the disk and the headers are what they were. The rows after it are
  processed as they would be without it, from a state that differs by the message only.
\<close>

theorem sync_row_destination_exists:
  assumes "do_rename r"
    and "destination r = Some newfile"
    and "newfile \<in> present w"
    and "\<not> overwrite_existing"
  shows "sync_row op overwrite_existing save_oldname mutable w r =
           (Synced, w\<lparr>printed := printed w @ [exists_message newfile]\<rparr>) \<and>
         wix (snd (sync_row op overwrite_existing save_oldname mutable w r)) = wix w \<and>
         present (snd (sync_row op overwrite_existing save_oldname mutable w r)) = present w \<and>
         header_updates (snd (sync_row op overwrite_existing save_oldname mutable w r)) =
           header_updates w \<and>
         sync_rows op overwrite_existing save_oldname mutable w (r # rest) =
           sync_rows op overwrite_existing save_oldname mutable
             (w\<lparr>printed := printed w @ [exists_message newfile]\<rparr>) rest"
proof -
  have 1: "sync_row op overwrite_existing save_oldname mutable w r =
           (Synced, w\<lparr>printed := printed w @ [exists_message newfile]\<rparr>)"
    using assms by (simp add: sync_row_def)
  show ?thesis
    unfolding sync_rows.simps 1 by simp
qed

theorem sync_row_destination_exists_witness:
  "sync_row Move False False [''SESSION''] sync_world staged_row =
     (Synced, sync_world\<lparr>printed :=
        [''Error: desired filename already exists (/new/light/M31_001.fits)'']\<rparr>) \<and>
   map (\<lambda>r. (cells r ''_CHANGED'', cells r ''_newpath'', cells r ''_newname''))
     (df (wix (snd (sync_row Move False False [''SESSION''] sync_world staged_row)))) =
     [(Some (B True), Some (S ''/new/light''), Some (S ''M31_001.fits'')),
      (Some (B True), None, None), (Some (B True), None, Some (S ''flat_001.fits''))] \<and>
   map hu_file (header_updates (snd
     (sync_rows Move False False [''SESSION''] sync_world [staged_row, edited_row]))) =
     [''/data/dark1.fits'']"
proof -
  have a: "do_rename staged_row" by code_simp
  have b: "destination staged_row = Some ''/new/light/M31_001.fits''" by code_simp
  have c: "''/new/light/M31_001.fits'' \<in> present sync_world"
    by (simp add: sync_world_def)
  have m: "exists_message ''/new/light/M31_001.fits'' =
      ''Error: desired filename already exists (/new/light/M31_001.fits)''"
    by code_simp
  have p: "printed sync_world = []" by (simp add: sync_world_def)
  have d: "map (\<lambda>r. (cells r ''_CHANGED'', cells r ''_newpath'', cells r ''_newname''))
     (df (wix sync_world)) =
     [(Some (B True), Some (S ''/new/light''), Some (S ''M31_001.fits'')),
      (Some (B True), None, None), (Some (B True), None, Some (S ''flat_001.fits''))]"
    by code_simp
  have e: "map hu_file (header_updates (snd
     (sync_rows Move False False [''SESSION'']
        (sync_world\<lparr>printed := [''Error: desired filename already exists (/new/light/M31_001.fits)'']\<rparr>)
        [edited_row]))) = [''/data/dark1.fits'']"
    by code_simp
  show ?thesis
    using sync_row_destination_exists [OF a b c, of False Move False "[''SESSION'']" "[edited_row]"]
      d e
    unfolding m p by simp
qed

lemma path_parent_join:
  assumes "CHR ''/'' \<notin> set n" and "d \<noteq> []"
  shows "path_parent (path_join d n) = d"
proof -
  have "dropWhile (\<lambda>c. c \<noteq> CHR ''/'') (rev n @ CHR ''/'' # rev d) =
      dropWhile (\<lambda>c. c \<noteq> CHR ''/'') (CHR ''/'' # rev d)"
    by (rule dropWhile_append2) (use assms(1) in auto)
  then show ?thesis
    using assms(2) by (simp add: path_parent_def path_join_def)
qed

lemma filekey_set_cell [simp]: "filekey (set_cell a v r) = filekey r"
  by (simp add: set_cell_def)

lemma cells_set_cell [simp]: "cells (set_cell a v r) b = (if b = a then v else cells r b)"
  by (simp add: set_cell_def)

lemma after_file_step_move:
  assumes "after_file_step Move so mutable newfile r w = (Synced, w1)"
  shows "df (wix w1) =
           map (\<lambda>r0. if filekey r0 = filekey r
                      then (set_cell ''_path'' (effective_path r)
                              (set_cell ''_CHANGED'' (Some (B False)) r0))\<lparr>filekey := newfile\<rparr>
                      else r0) (df (wix w))"
    and "''_path'' \<in> set (columns (wix w1))"
  using assms
  by (auto simp: after_file_step_def finish_row_def write_header_def loc_set_def
      rename_index_def Let_def split: if_splits)

lemma sync_row_move_df:
  assumes dest: "destination r = Some newfile"
    and committed: "\<not> (do_rename r \<and> newfile \<in> present w \<and> \<not> ov)"
    and ok: "sync_row Move ov so mutable w r = (Synced, w1)"
  shows "df (wix w1) =
           map (\<lambda>r0. if filekey r0 = filekey r
                      then (set_cell ''_path'' (effective_path r)
                              (set_cell ''_CHANGED'' (Some (B False))
                                (if do_rename r
                                 then set_cell ''_newname'' None (set_cell ''_newpath'' None r0)
                                 else r0)))\<lparr>filekey := newfile\<rparr>
                      else r0) (df (wix w))"
    and "''_path'' \<in> set (columns (wix w1))"
proof -
  show "''_path'' \<in> set (columns (wix w1))"
    using dest committed ok after_file_step_move(2)
    by (auto simp: sync_row_def split: if_splits sum.splits)
  show "df (wix w1) =
           map (\<lambda>r0. if filekey r0 = filekey r
                      then (set_cell ''_path'' (effective_path r)
                              (set_cell ''_CHANGED'' (Some (B False))
                                (if do_rename r
                                 then set_cell ''_newname'' None (set_cell ''_newpath'' None r0)
                                 else r0)))\<lparr>filekey := newfile\<rparr>
                      else r0) (df (wix w))"
  proof (cases "do_rename r")
    case False
    then have "after_file_step Move so mutable newfile r w = (Synced, w1)"
      using dest ok by (simp add: sync_row_def)
    from after_file_step_move(1) [OF this] False show ?thesis by simp
  next
    case True
    then obtain disk where
      step: "after_file_step Move so mutable newfile r
               (w\<lparr>present := disk,
                  wix := loc_set (filekey r) [''_newpath'', ''_newname''] None (wix w)\<rparr>) =
             (Synced, w1)"
      using dest committed ok
      by (auto simp: sync_row_def split: if_splits sum.splits)
    from after_file_step_move(1) [OF step] True show ?thesis
      by (simp add: loc_set_def comp_def)
  qed
qed

text \<open>
  C10 (amended). When \<^verbatim>\<open>_sync_row\<close> commits a row with the operation \<^verbatim>\<open>move\<close> (the
  destination was not refused and nothing raised), the row's key becomes the destination
  path, its \<^verbatim>\<open>_PATH\<close> cell is what it was, and the new directory is written to the
  cell of a column \<^verbatim>\<open>_path\<close>, which the frame has afterwards. So \<^verbatim>\<open>_PATH\<close> agrees
  with the directory of the new key exactly when the row was moved within its old
  directory, and disagrees with it whenever the directory changed.
\<close>

theorem sync_row_move_PATH:
  assumes dest: "destination r = Some newfile"
    and committed: "\<not> (do_rename r \<and> newfile \<in> present w \<and> \<not> ov)"
    and ok: "sync_row Move ov so mutable w r = (Synced, w1)"
  shows "map filekey (df (wix w1)) =
           map (\<lambda>r0. if filekey r0 = filekey r then newfile else filekey r0) (df (wix w)) \<and>
         map (\<lambda>r0. cells r0 ''_PATH'') (df (wix w1)) =
           map (\<lambda>r0. cells r0 ''_PATH'') (df (wix w)) \<and>
         map (\<lambda>r0. cells r0 ''_path'') (df (wix w1)) =
           map (\<lambda>r0. if filekey r0 = filekey r then effective_path r else cells r0 ''_path'')
             (df (wix w)) \<and>
         ''_path'' \<in> set (columns (wix w1)) \<and>
         (\<forall>i d n. i < length (df (wix w)) \<and> filekey (df (wix w) ! i) = filekey r \<and>
            effective_path r = Some (S d) \<and> effective_name r = Some (S n) \<and>
            d \<noteq> [] \<and> CHR ''/'' \<notin> set n \<longrightarrow>
            (cells (df (wix w1) ! i) ''_PATH'' =
               Some (S (path_parent (filekey (df (wix w1) ! i)))) \<longleftrightarrow>
             cells (df (wix w) ! i) ''_PATH'' = Some (S d)))"
proof -
  note D = sync_row_move_df(1) [OF dest committed ok]
  have 1: "map filekey (df (wix w1)) =
           map (\<lambda>r0. if filekey r0 = filekey r then newfile else filekey r0) (df (wix w))"
    unfolding D by simp
  have 2: "map (\<lambda>r0. cells r0 ''_PATH'') (df (wix w1)) =
           map (\<lambda>r0. cells r0 ''_PATH'') (df (wix w))"
    unfolding D by simp
  have 3: "map (\<lambda>r0. cells r0 ''_path'') (df (wix w1)) =
           map (\<lambda>r0. if filekey r0 = filekey r then effective_path r else cells r0 ''_path'')
             (df (wix w))"
    unfolding D by simp
  have 4: "''_path'' \<in> set (columns (wix w1))"
    by (rule sync_row_move_df(2) [OF dest committed ok])
  have 5: "cells (df (wix w1) ! i) ''_PATH'' =
               Some (S (path_parent (filekey (df (wix w1) ! i)))) \<longleftrightarrow>
             cells (df (wix w) ! i) ''_PATH'' = Some (S d)"
    if "i < length (df (wix w))" "filekey (df (wix w) ! i) = filekey r"
      "effective_path r = Some (S d)" "effective_name r = Some (S n)"
      "d \<noteq> []" "CHR ''/'' \<notin> set n" for i d n
  proof -
    have nf: "newfile = path_join d n"
      using dest that(3,4) by (simp add: destination_def)
    have k: "filekey (df (wix w1) ! i) = newfile"
    proof -
      have "filekey (df (wix w1) ! i) = map filekey (df (wix w1)) ! i"
        using that(1) D by simp
      then show ?thesis unfolding 1 using that(1,2) by simp
    qed
    have p: "cells (df (wix w1) ! i) ''_PATH'' = cells (df (wix w) ! i) ''_PATH''"
    proof -
      have "cells (df (wix w1) ! i) ''_PATH'' = map (\<lambda>r0. cells r0 ''_PATH'') (df (wix w1)) ! i"
        using that(1) D by simp
      then show ?thesis unfolding 2 using that(1) by simp
    qed
    show ?thesis
      unfolding k p nf path_parent_join [OF that(6,5)] by simp
  qed
  show ?thesis using 1 2 3 4 5 by blast
qed

theorem sync_row_move_PATH_witness:
  "map filekey (df (wix (snd (sync_row Move True False [''SESSION''] sync_world staged_row)))) =
     [''/new/light/M31_001.fits'', ''/data/dark1.fits'', ''/data/flat1.fits''] \<and>
   map (\<lambda>r0. cells r0 ''_PATH'')
       (df (wix (snd (sync_row Move True False [''SESSION''] sync_world staged_row)))) =
     [Some (S ''/data''), Some (S ''/data''), Some (S ''/data'')] \<and>
   map (\<lambda>r0. cells r0 ''_path'')
       (df (wix (snd (sync_row Move True False [''SESSION''] sync_world staged_row)))) =
     [Some (S ''/new/light''), None, None] \<and>
   path_parent ''/new/light/M31_001.fits'' = ''/new/light''"
proof -
  have "fst (sync_row Move True False [''SESSION''] sync_world staged_row) = Synced"
    by code_simp
  then obtain w1 where
    ok: "sync_row Move True False [''SESSION''] sync_world staged_row = (Synced, w1)"
    by (metis prod.collapse)
  have dest: "destination staged_row = Some ''/new/light/M31_001.fits''" by code_simp
  have committed: "\<not> (do_rename staged_row \<and>
      ''/new/light/M31_001.fits'' \<in> present sync_world \<and> \<not> True)"
    by simp
  have a: "map (\<lambda>r0. if filekey r0 = filekey staged_row then ''/new/light/M31_001.fits''
                       else filekey r0) (df (wix sync_world)) =
      [''/new/light/M31_001.fits'', ''/data/dark1.fits'', ''/data/flat1.fits'']"
    by code_simp
  have b: "map (\<lambda>r0. cells r0 ''_PATH'') (df (wix sync_world)) =
      [Some (S ''/data''), Some (S ''/data''), Some (S ''/data'')]"
    by code_simp
  have c: "map (\<lambda>r0. if filekey r0 = filekey staged_row then effective_path staged_row
                       else cells r0 ''_path'') (df (wix sync_world)) =
      [Some (S ''/new/light''), None, None]"
    by code_simp
  have d: "path_parent ''/new/light/M31_001.fits'' = ''/new/light''" by code_simp
  show ?thesis
    using sync_row_move_PATH [OF dest committed ok] a b c d
    unfolding ok by simp
qed

theorem sync_row_move_same_directory_counterexample:
  "fst (sync_row Move False False [''SESSION''] sync_world renamed_row) = Synced \<and>
   map (\<lambda>r0. (filekey r0, cells r0 ''_PATH''))
       (df (wix (snd (sync_row Move False False [''SESSION''] sync_world renamed_row)))) =
     [(''/data/light1.fits'', Some (S ''/data'')), (''/data/dark1.fits'', Some (S ''/data'')),
      (''/data/flat_001.fits'', Some (S ''/data''))] \<and>
   path_parent ''/data/flat_001.fits'' = ''/data''"
  by code_simp

subsection \<open>Dense ranks\<close>










end
